theory Spec2Isabelle
  imports Main "HOL-Library.Sublist"
begin

section \<open>Python values, exceptions and the library functions the handler calls\<close>

text \<open>
  The handler of \<^verbatim>\<open>Logistics-System.py\<close> receives a JSON-decoded event and talks to one
  collaborator, a DynamoDB table. Three kinds of data occur:
  \<^item> \<open>json\<close>: what a JSON decoder produces (the event and everything inside it). A float is
    kept as the text Python's \<^verbatim>\<open>repr\<close> prints for it; the handler never computes with one.
  \<^item> \<open>pyval\<close>: what the table's \<^verbatim>\<open>query\<close> call hands back. Besides the JSON-like values
    it may hold objects that \<^verbatim>\<open>json.dumps\<close> refuses (\<^verbatim>\<open>Decimal\<close>, \<^verbatim>\<open>set\<close>,
    \<^verbatim>\<open>Binary\<close>); \<open>PObject\<close> carries the name of such a type.
  \<^item> \<open>exn\<close>: the exceptions, by the classes the \<^verbatim>\<open>except\<close> clauses of the source tell apart.
    \<open>ValueError\<close> and \<open>LogisticsQueryError\<close> carry \<^verbatim>\<open>str(e)\<close>, \<open>ClientError\<close> carries
    \<^verbatim>\<open>e.response['Error']['Code']\<close> and \<^verbatim>\<open>['Message']\<close>, and \<open>OtherException\<close> is any other
    subclass of \<^verbatim>\<open>Exception\<close> (\<^verbatim>\<open>TypeError\<close>, \<^verbatim>\<open>AttributeError\<close>, \<^verbatim>\<open>KeyError\<close>, a
    connection error, ...) with its \<^verbatim>\<open>str(e)\<close>.
  A string is a list of 8-bit characters read as the code points U+0000 to U+00FF; a dict
  is an association list in insertion order, looked up by its first matching key.
\<close>

datatype json =
    JNull
  | JBool bool
  | JInt int
  | JFloat string
  | JStr string
  | JList "json list"
  | JDict "(string \<times> json) list"

datatype pyval =
    PNone
  | PBool bool
  | PInt int
  | PFloat string
  | PStr string
  | PList "pyval list"
  | PDict "(string \<times> pyval) list"
  | PObject string

datatype exn =
    ValueError string
  | LogisticsQueryError string
  | ClientError string string
  | OtherException string

definition and_then :: "exn + 'a \<Rightarrow> ('a \<Rightarrow> exn + 'b) \<Rightarrow> exn + 'b" where
  "and_then r f = (case r of Inl e \<Rightarrow> Inl e | Inr x \<Rightarrow> f x)"

subsection \<open>Text helpers\<close>

definition digit :: "nat \<Rightarrow> char" where
  "digit n = ''0123456789abcdef'' ! (n mod 16)"

fun str_of_nat :: "nat \<Rightarrow> string" where
  "str_of_nat n = (if n < 10 then [digit n] else str_of_nat (n div 10) @ [digit (n mod 10)])"

declare str_of_nat.simps [simp del]

definition str_of_int :: "int \<Rightarrow> string" where
  "str_of_int i = (if i < 0 then CHR ''-'' # str_of_nat (nat (- i)) else str_of_nat (nat i))"

definition hex2 :: "char \<Rightarrow> string" where
  "hex2 c = [digit (of_char c div 16), digit (of_char c mod 16)]"

fun str_join :: "string \<Rightarrow> string list \<Rightarrow> string" where
  "str_join sep [] = []"
| "str_join sep [x] = x"
| "str_join sep (x # y # ys) = x @ sep @ str_join sep (y # ys)"

text \<open>Python's \<^verbatim>\<open>needle in haystack\<close> on two strings: a contiguous occurrence.\<close>

fun str_contains :: "string \<Rightarrow> string \<Rightarrow> bool" where
  "str_contains [] needle = (needle = [])"
| "str_contains (h # hs) needle = (prefix needle (h # hs) \<or> str_contains hs needle)"

subsection \<open>\<^verbatim>\<open>str\<close> and \<^verbatim>\<open>repr\<close> of a decoded value (what an f-string prints)\<close>

definition repr_quote :: "string \<Rightarrow> char" where
  "repr_quote s = (if CHR 0x27 \<in> set s \<and> CHR 0x22 \<notin> set s then CHR 0x22 else CHR 0x27)"

definition py_printable :: "char \<Rightarrow> bool" where
  "py_printable c =
     (let n = (of_char c :: nat) in (32 \<le> n \<and> n < 127) \<or> (161 \<le> n \<and> n \<noteq> 173))"

definition repr_char :: "char \<Rightarrow> char \<Rightarrow> string" where
  "repr_char q c =
     (if c = q \<or> c = CHR 0x5C then [CHR 0x5C, c]
      else if c = CHR 0x09 then [CHR 0x5C, CHR ''t'']
      else if c = CHR 0x0A then [CHR 0x5C, CHR ''n'']
      else if c = CHR 0x0D then [CHR 0x5C, CHR ''r'']
      else if py_printable c then [c]
      else [CHR 0x5C, CHR ''x''] @ hex2 c)"

definition py_repr_str :: "string \<Rightarrow> string" where
  "py_repr_str s = (let q = repr_quote s in q # concat (map (repr_char q) s) @ [q])"

fun py_repr :: "json \<Rightarrow> string"
  and repr_items :: "json list \<Rightarrow> string list"
  and repr_pairs :: "(string \<times> json) list \<Rightarrow> string list" where
  "py_repr JNull = ''None''"
| "py_repr (JBool b) = (if b then ''True'' else ''False'')"
| "py_repr (JInt i) = str_of_int i"
| "py_repr (JFloat r) = r"
| "py_repr (JStr s) = py_repr_str s"
| "py_repr (JList xs) = ''['' @ str_join '', '' (repr_items xs) @ '']''"
| "py_repr (JDict kvs) = ''{'' @ str_join '', '' (repr_pairs kvs) @ ''}''"
| "repr_items [] = []"
| "repr_items (x # xs) = py_repr x # repr_items xs"
| "repr_pairs [] = []"
| "repr_pairs ((k, v) # kvs) = (py_repr_str k @ '': '' @ py_repr v) # repr_pairs kvs"

fun py_str :: "json \<Rightarrow> string" where
  "py_str (JStr s) = s"
| "py_str v = py_repr v"

text \<open>Truth value of a decoded value, as \<^verbatim>\<open>not sales_id\<close> tests it.\<close>

fun truthy :: "json \<Rightarrow> bool" where
  "truthy JNull = False"
| "truthy (JBool b) = b"
| "truthy (JInt i) = (i \<noteq> 0)"
| "truthy (JFloat r) = (r \<noteq> ''0.0'' \<and> r \<noteq> ''-0.0'')"
| "truthy (JStr s) = (s \<noteq> [])"
| "truthy (JList xs) = (xs \<noteq> [])"
| "truthy (JDict kvs) = (kvs \<noteq> [])"

fun is_str :: "json \<Rightarrow> bool" where
  "is_str (JStr s) = True"
| "is_str v = False"

fun type_name :: "json \<Rightarrow> string" where
  "type_name JNull = ''NoneType''"
| "type_name (JBool b) = ''bool''"
| "type_name (JInt i) = ''int''"
| "type_name (JFloat r) = ''float''"
| "type_name (JStr s) = ''str''"
| "type_name (JList xs) = ''list''"
| "type_name (JDict kvs) = ''dict''"

subsection \<open>Container operations on a decoded value\<close>

text \<open>
  \<^verbatim>\<open>field in event\<close>: a key test on a dict, an element test on a list, a substring test on a
  string, and a \<^verbatim>\<open>TypeError\<close> on anything else.
\<close>

fun py_in :: "string \<Rightarrow> json \<Rightarrow> exn + bool" where
  "py_in k (JDict kvs) = Inr (k \<in> set (map fst kvs))"
| "py_in k (JList xs) = Inr (JStr k \<in> set xs)"
| "py_in k (JStr s) = Inr (str_contains s k)"
| "py_in k v =
     Inl (OtherException (''argument of type '' @ py_repr_str (type_name v) @ '' is not iterable''))"

text \<open>\<^verbatim>\<open>event[key]\<close> with a string key.\<close>

fun py_getitem :: "json \<Rightarrow> string \<Rightarrow> exn + json" where
  "py_getitem (JDict kvs) k =
     (case map_of kvs k of None \<Rightarrow> Inl (OtherException (py_repr_str k)) | Some v \<Rightarrow> Inr v)"
| "py_getitem (JList xs) k =
     Inl (OtherException ''list indices must be integers or slices, not str'')"
| "py_getitem (JStr s) k = Inl (OtherException (''string indices must be integers, not '' @ py_repr_str ''str''))"
| "py_getitem v k =
     Inl (OtherException (py_repr_str (type_name v) @ '' object is not subscriptable''))"

text \<open>\<^verbatim>\<open>x.get(key, default)\<close>: only a dict has the method.\<close>

fun py_get :: "json \<Rightarrow> string \<Rightarrow> json \<Rightarrow> exn + json" where
  "py_get (JDict kvs) k d = Inr (case map_of kvs k of None \<Rightarrow> d | Some v \<Rightarrow> v)"
| "py_get v k d =
     Inl (OtherException (py_repr_str (type_name v) @ '' object has no attribute '' @ py_repr_str ''get''))"

text \<open>What \<^verbatim>\<open>for parameter in parameters\<close> iterates over.\<close>

fun py_iter :: "json \<Rightarrow> exn + json list" where
  "py_iter (JList xs) = Inr xs"
| "py_iter (JDict kvs) = Inr (map (\<lambda>kv. JStr (fst kv)) kvs)"
| "py_iter (JStr s) = Inr (map (\<lambda>c. JStr [c]) s)"
| "py_iter v =
     Inl (OtherException (py_repr_str (type_name v) @ '' object is not iterable''))"

subsection \<open>\<^verbatim>\<open>json.dumps\<close> with its default options\<close>

definition json_escape_char :: "char \<Rightarrow> string" where
  "json_escape_char c =
     (if c = CHR 0x22 then [CHR 0x5C, CHR 0x22]
      else if c = CHR 0x5C then [CHR 0x5C, CHR 0x5C]
      else if c = CHR 0x0A then [CHR 0x5C, CHR ''n'']
      else if c = CHR 0x0D then [CHR 0x5C, CHR ''r'']
      else if c = CHR 0x09 then [CHR 0x5C, CHR ''t'']
      else if c = CHR 0x08 then [CHR 0x5C, CHR ''b'']
      else if c = CHR 0x0C then [CHR 0x5C, CHR ''f'']
      else if 32 \<le> (of_char c :: nat) \<and> (of_char c :: nat) < 127 then [c]
      else [CHR 0x5C, CHR ''u'', CHR ''0'', CHR ''0''] @ hex2 c)"

definition json_str :: "string \<Rightarrow> string" where
  "json_str s = CHR 0x22 # concat (map json_escape_char s) @ [CHR 0x22]"

definition json_float :: "string \<Rightarrow> string" where
  "json_float r =
     (if r = ''nan'' then ''NaN'' else if r = ''inf'' then ''Infinity''
      else if r = ''-inf'' then ''-Infinity'' else r)"

fun json_dumps :: "pyval \<Rightarrow> exn + string"
  and dumps_items :: "pyval list \<Rightarrow> exn + string list"
  and dumps_pairs :: "(string \<times> pyval) list \<Rightarrow> exn + string list" where
  "json_dumps PNone = Inr ''null''"
| "json_dumps (PBool b) = Inr (if b then ''true'' else ''false'')"
| "json_dumps (PInt i) = Inr (str_of_int i)"
| "json_dumps (PFloat r) = Inr (json_float r)"
| "json_dumps (PStr s) = Inr (json_str s)"
| "json_dumps (PList xs) =
     and_then (dumps_items xs) (\<lambda>ss. Inr (''['' @ str_join '', '' ss @ '']''))"
| "json_dumps (PDict kvs) =
     and_then (dumps_pairs kvs) (\<lambda>ss. Inr (''{'' @ str_join '', '' ss @ ''}''))"
| "json_dumps (PObject t) =
     Inl (OtherException (''Object of type '' @ t @ '' is not JSON serializable''))"
| "dumps_items [] = Inr []"
| "dumps_items (x # xs) =
     and_then (json_dumps x) (\<lambda>s. and_then (dumps_items xs) (\<lambda>ss. Inr (s # ss)))"
| "dumps_pairs [] = Inr []"
| "dumps_pairs ((k, v) # kvs) =
     and_then (json_dumps v)
       (\<lambda>s. and_then (dumps_pairs kvs) (\<lambda>ss. Inr ((json_str k @ '': '' @ s) # ss)))"

section \<open>The datastore, as the handler sees it\<close>

text \<open>
  The table is an external collaborator, so it is a parameter. \<open>table_status db name\<close> is
  what acquiring the table \<open>name\<close> and reading its status does (lines 19 to 22): \<open>None\<close>
  when it works, the exception raised otherwise. \<open>table_query db name key\<close> is the outcome
  of the equality query on the partition key \<^verbatim>\<open>order_id\<close> (lines 46 to 48): the response
  dict or the exception raised.
\<close>

record datastore =
  table_status :: "string \<Rightarrow> exn option"
  table_query :: "string \<Rightarrow> string \<Rightarrow> exn + (string \<times> pyval) list"

section \<open>The response envelope\<close>

record action_response =
  actionGroup :: json
  apiPath :: json
  httpMethod :: json
  httpStatusCode :: int
  responseBody :: "(string \<times> (string \<times> string) list) list"

record envelope =
  messageVersion :: string
  response :: action_response

section \<open>The functions of \<^verbatim>\<open>Logistics-System.py\<close>\<close>

text \<open>
  Calls to the logger are left out: they return nothing and do not raise. The values their
  f-strings read are kept where reading them can raise (\<^verbatim>\<open>event['apiPath']\<close> on line 99).
\<close>

definition setup_dynamodb_table :: "datastore \<Rightarrow> string \<Rightarrow> exn + string" where
  "setup_dynamodb_table db table_name =
     (case table_status db table_name of
        None \<Rightarrow> Inr table_name
      | Some (ClientError error_code error_message) \<Rightarrow>
          Inl (LogisticsQueryError (''Database initialization error: '' @ error_message))
      | Some e \<Rightarrow> Inl (LogisticsQueryError ''Failed to initialize database connection''))"

text \<open>The body of the \<^verbatim>\<open>try\<close> of \<^verbatim>\<open>query_logistic_db\<close> (lines 38 to 58).\<close>

definition query_try :: "datastore \<Rightarrow> json \<Rightarrow> exn + (string \<times> pyval) list" where
  "query_try db sales_id =
     (if \<not> truthy sales_id \<or> \<not> is_str sales_id
      then Inl (ValueError ''Invalid sales ID provided'')
      else and_then (setup_dynamodb_table db ''logistics'')
        (\<lambda>orders_table. and_then (table_query db orders_table (py_str sales_id))
          (\<lambda>resp. if ''Items'' \<notin> set (map fst resp)
             then Inl (LogisticsQueryError ''Invalid response format from database'')
             else Inr resp)))"

text \<open>The three \<^verbatim>\<open>except\<close> clauses of \<^verbatim>\<open>query_logistic_db\<close> (lines 60 to 70), in their order.\<close>

fun query_except :: "exn \<Rightarrow> exn" where
  "query_except (ClientError error_code error_message) =
     LogisticsQueryError (''Database query error: '' @ error_message)"
| "query_except (ValueError m) = ValueError m"
| "query_except (LogisticsQueryError m) =
     LogisticsQueryError (''Failed to query logistics data: '' @ m)"
| "query_except (OtherException m) =
     LogisticsQueryError (''Failed to query logistics data: '' @ m)"

definition query_logistic_db :: "datastore \<Rightarrow> json \<Rightarrow> exn + (string \<times> pyval) list" where
  "query_logistic_db db sales_id =
     (case query_try db sales_id of Inl e \<Rightarrow> Inl (query_except e) | Inr resp \<Rightarrow> Inr resp)"

definition required_fields :: "string list" where
  "required_fields = [''apiPath'', ''actionGroup'', ''httpMethod'']"

fun check_fields :: "json \<Rightarrow> string list \<Rightarrow> exn + unit" where
  "check_fields event [] = Inr ()"
| "check_fields event (field # others) =
     and_then (py_in field event)
       (\<lambda>present. if \<not> present then Inl (ValueError (''Missing required field: '' @ field))
          else check_fields event others)"

definition validate_event :: "json \<Rightarrow> exn + unit" where
  "validate_event event = check_fields event required_fields"

definition error_envelope :: "string \<Rightarrow> int \<Rightarrow> envelope" where
  "error_envelope body status_code =
     \<lparr>messageVersion = ''1.0'',
      response = \<lparr>actionGroup = JStr ''unknown'', apiPath = JStr ''unknown'',
        httpMethod = JStr ''unknown'', httpStatusCode = status_code,
        responseBody = [(''application/json'', [(''body'', body)])]\<rparr>\<rparr>"

definition create_error_response :: "string \<Rightarrow> int \<Rightarrow> exn + envelope" where
  "create_error_response error_message status_code =
     and_then (json_dumps (PDict [(''error'', PStr error_message)]))
       (\<lambda>body. Inr (error_envelope body status_code))"

text \<open>The loop of lines 106 to 109; \<open>JNull\<close> is the initial \<^verbatim>\<open>sales_id = None\<close>.\<close>

fun find_sales_id :: "json list \<Rightarrow> exn + json" where
  "find_sales_id [] = Inr JNull"
| "find_sales_id (parameter # rest) =
     and_then (py_get parameter ''name'' JNull)
       (\<lambda>name. if name = JStr ''SalesOrderID'' then py_get parameter ''value'' JNull
          else find_sales_id rest)"

text \<open>Lines 103 to 112: the value of the parameter \<^verbatim>\<open>SalesOrderID\<close>, or the exception.\<close>

definition extract_sales_id :: "json \<Rightarrow> exn + json" where
  "extract_sales_id event =
     and_then (py_get event ''parameters'' (JList []))
       (\<lambda>parameters. and_then (py_iter parameters)
         (\<lambda>ps. and_then (find_sales_id ps)
           (\<lambda>sales_id. if \<not> truthy sales_id
              then Inl (ValueError ''SalesOrderID parameter is missing or invalid'')
              else Inr sales_id)))"

text \<open>Lines 120 to 133: the success envelope around the query result.\<close>

definition success_response :: "json \<Rightarrow> (string \<times> pyval) list \<Rightarrow> exn + envelope" where
  "success_response event body =
     and_then (json_dumps (PDict body))
       (\<lambda>dumped. and_then (py_getitem event ''actionGroup'')
         (\<lambda>ag. and_then (py_getitem event ''apiPath'')
           (\<lambda>ap. and_then (py_getitem event ''httpMethod'')
             (\<lambda>hm. Inr \<lparr>messageVersion = ''1.0'',
                response = \<lparr>actionGroup = ag, apiPath = ap, httpMethod = hm,
                  httpStatusCode = 200,
                  responseBody = [(''application/json'', [(''body'', dumped)])]\<rparr>\<rparr>))))"

text \<open>The body of the \<^verbatim>\<open>try\<close> of \<^verbatim>\<open>lambda_handler\<close> (lines 96 to 133).\<close>

definition handler_try :: "datastore \<Rightarrow> json \<Rightarrow> exn + envelope" where
  "handler_try db event =
     and_then (validate_event event)
       (\<lambda>_. and_then (py_getitem event ''apiPath'')
         (\<lambda>path. if path = JStr ''/salesorder/{SalesOrderID}''
            then and_then (extract_sales_id event)
              (\<lambda>sales_id. and_then (query_logistic_db db sales_id) (success_response event))
            else Inl (ValueError (''Invalid API path: '' @ py_str path))))"

text \<open>The three \<^verbatim>\<open>except\<close> clauses of \<^verbatim>\<open>lambda_handler\<close> (lines 135 to 143).\<close>

fun handler_except :: "exn \<Rightarrow> exn + envelope" where
  "handler_except (ValueError m) = create_error_response m 400"
| "handler_except (LogisticsQueryError m) = create_error_response m 500"
| "handler_except (ClientError error_code m) = create_error_response ''Internal server error'' 500"
| "handler_except (OtherException m) = create_error_response ''Internal server error'' 500"

text \<open>
  \<^verbatim>\<open>lambda_handler\<close>; its unused \<^verbatim>\<open>context\<close> argument is dropped. The result is still a
  sum: that no exception leaves the handler is a theorem below, not a property of the type.
\<close>

definition lambda_handler :: "datastore \<Rightarrow> json \<Rightarrow> exn + envelope" where
  "lambda_handler db event =
     (case handler_try db event of Inl e \<Rightarrow> handler_except e | Inr r \<Rightarrow> Inr r)"

section \<open>Vocabulary of the properties\<close>

text \<open>
  The properties speak of events that are mappings. \<open>dict_get\<close> reads a key of a mapping
  and finds nothing in any other value.
\<close>

fun dict_get :: "json \<Rightarrow> string \<Rightarrow> json option" where
  "dict_get (JDict kvs) k = map_of kvs k"
| "dict_get v k = None"

fun is_dict :: "json \<Rightarrow> bool" where
  "is_dict (JDict kvs) = True"
| "is_dict v = False"

definition has_required_fields :: "json \<Rightarrow> bool" where
  "has_required_fields event \<longleftrightarrow>
     dict_get event ''apiPath'' \<noteq> None \<and> dict_get event ''actionGroup'' \<noteq> None \<and>
     dict_get event ''httpMethod'' \<noteq> None"

text \<open>The first absent field in the order apiPath, actionGroup, httpMethod.\<close>

definition first_missing :: "json \<Rightarrow> string option" where
  "first_missing event =
     (if dict_get event ''apiPath'' = None then Some ''apiPath''
      else if dict_get event ''actionGroup'' = None then Some ''actionGroup''
      else if dict_get event ''httpMethod'' = None then Some ''httpMethod''
      else None)"

definition salesorder_path :: string where
  "salesorder_path = ''/salesorder/{SalesOrderID}''"

definition names_sales_order :: "json \<Rightarrow> bool" where
  "names_sales_order p \<longleftrightarrow> dict_get p ''name'' = Some (JStr ''SalesOrderID'')"

text \<open>
  A valid event carrying the order id \<open>s\<close>: the three fields are there, the path is the
  supported one, the parameters are a list of mappings, and the first of them named
  \<^verbatim>\<open>SalesOrderID\<close> has the non-empty string \<open>s\<close> as its value.
\<close>

definition valid_event :: "json \<Rightarrow> string \<Rightarrow> bool" where
  "valid_event event s \<longleftrightarrow>
     has_required_fields event \<and> dict_get event ''apiPath'' = Some (JStr salesorder_path) \<and>
     (case dict_get event ''parameters'' of
        Some (JList ps) \<Rightarrow>
          list_all is_dict ps \<and>
          (case find names_sales_order ps of
             Some p \<Rightarrow> dict_get p ''value'' = Some (JStr s) \<and> s \<noteq> []
           | None \<Rightarrow> False)
      | _ \<Rightarrow> False)"

text \<open>The JSON text of \<^verbatim>\<open>{"error": message}\<close>.\<close>

definition error_body :: "string \<Rightarrow> string" where
  "error_body message = ''{'' @ json_str ''error'' @ '': '' @ json_str message @ ''}''"

text \<open>The characters \<^verbatim>\<open>json.dumps\<close> copies into its output as they are.\<close>

definition json_plain :: "char \<Rightarrow> bool" where
  "json_plain c \<longleftrightarrow>
     32 \<le> (of_char c :: nat) \<and> (of_char c :: nat) < 127 \<and> c \<noteq> CHR 0x22 \<and> c \<noteq> CHR 0x5C"

definition success_envelope :: "json \<Rightarrow> json \<Rightarrow> json \<Rightarrow> string \<Rightarrow> envelope" where
  "success_envelope ag ap hm body =
     \<lparr>messageVersion = ''1.0'',
      response = \<lparr>actionGroup = ag, apiPath = ap, httpMethod = hm, httpStatusCode = 200,
        responseBody = [(''application/json'', [(''body'', body)])]\<rparr>\<rparr>"

subsection \<open>Concrete events and tables\<close>

definition event_with :: "json \<Rightarrow> json list \<Rightarrow> json" where
  "event_with path ps =
     JDict [(''apiPath'', path), (''actionGroup'', JStr ''ag1''), (''httpMethod'', JStr ''GET''),
            (''parameters'', JList ps)]"

definition parameter :: "string \<Rightarrow> json \<Rightarrow> json" where
  "parameter n v = JDict [(''name'', JStr n), (''value'', v)]"

definition so123_event :: json where
  "so123_event = event_with (JStr ''/salesorder/{SalesOrderID}'')
     [parameter ''SalesOrderID'' (JStr ''SO123'')]"

definition two_ids_event :: json where
  "two_ids_event = event_with (JStr ''/salesorder/{SalesOrderID}'')
     [parameter ''salesorderid'' (JStr ''SO000''), parameter ''SalesOrderID'' (JStr ''SO123''),
      parameter ''SalesOrderID'' (JStr ''SO999'')]"

definition concrete_path_event :: json where
  "concrete_path_event = event_with (JStr ''/salesorder/SO123'')
     [parameter ''SalesOrderID'' (JStr ''SO123'')]"

definition no_parameters_event :: json where
  "no_parameters_event =
     JDict [(''apiPath'', JStr ''/salesorder/{SalesOrderID}''), (''actionGroup'', JStr ''ag1''),
            (''httpMethod'', JStr ''GET'')]"

definition only_method_event :: json where
  "only_method_event = JDict [(''httpMethod'', JStr ''GET'')]"

definition shipped_record :: pyval where
  "shipped_record = PDict [(''order_id'', PStr ''SO123''), (''status'', PStr ''shipped'')]"

definition table_answering :: "(exn + (string \<times> pyval) list) \<Rightarrow> datastore" where
  "table_answering outcome =
     \<lparr>table_status = (\<lambda>name. None), table_query = (\<lambda>name key. outcome)\<rparr>"

text \<open>A table that knows one order, \<^verbatim>\<open>SO123\<close>, and finds nothing under any other key.\<close>

definition shipped_table :: datastore where
  "shipped_table =
     \<lparr>table_status = (\<lambda>name. None),
      table_query = (\<lambda>name key. Inr [(''Items'', PList (if key = ''SO123'' then [shipped_record] else []))])\<rparr>"

definition empty_table :: datastore where
  "empty_table = table_answering
     (Inr [(''Items'', PList []), (''Count'', PInt 0), (''ScannedCount'', PInt 0)])"

definition itemless_table :: datastore where
  "itemless_table = table_answering (Inr [(''Count'', PInt 0)])"

definition failing_table :: datastore where
  "failing_table = table_answering
     (Inl (ClientError ''ResourceNotFoundException'' ''Requested resource not found''))"

section \<open>Auxiliary facts\<close>

lemma and_then_Inl [simp]: "and_then (Inl e) f = Inl e"
  by (simp add: and_then_def)

lemma and_then_Inr [simp]: "and_then (Inr x) f = f x"
  by (simp add: and_then_def)

lemma and_then_eq_Inr:
  "and_then r f = Inr y \<longleftrightarrow> (\<exists>x. r = Inr x \<and> f x = Inr y)"
  by (cases r) simp_all

lemma json_dumps_error: "json_dumps (PDict [(''error'', PStr m)]) = Inr (error_body m)"
  by (simp add: error_body_def)

lemma create_error_response_eq:
  "create_error_response m c = Inr (error_envelope (error_body m) c)"
  unfolding create_error_response_def json_dumps_error by simp

lemma handler_except_cases:
  "\<exists>m c. handler_except e = Inr (error_envelope (error_body m) c) \<and> (c = 400 \<or> c = 500)"
  by (cases e) (auto simp: create_error_response_eq)

lemma dict_get_getitem:
  "dict_get event k = Some v \<Longrightarrow> py_getitem event k = Inr v"
  by (cases event) simp_all

lemma dict_get_in:
  "is_dict event \<Longrightarrow> py_in k event = Inr (dict_get event k \<noteq> None)"
  by (cases event) (auto simp: map_of_eq_None_iff)

lemma has_required_is_dict: "has_required_fields event \<Longrightarrow> is_dict event"
  by (cases event) (simp_all add: has_required_fields_def)

lemma validate_event_ok: "has_required_fields event \<Longrightarrow> validate_event event = Inr ()"
  by (frule has_required_is_dict)
     (simp add: validate_event_def required_fields_def dict_get_in has_required_fields_def)

lemma validate_event_missing:
  "is_dict event \<Longrightarrow> first_missing event = Some f \<Longrightarrow>
   validate_event event = Inl (ValueError (''Missing required field: '' @ f))"
  by (auto simp: validate_event_def required_fields_def dict_get_in first_missing_def
           split: if_splits)

lemma success_response_eq:
  "dict_get event ''actionGroup'' = Some ag \<Longrightarrow> dict_get event ''apiPath'' = Some ap \<Longrightarrow>
   dict_get event ''httpMethod'' = Some hm \<Longrightarrow> json_dumps (PDict body) = Inr dumped \<Longrightarrow>
   success_response event body = Inr (success_envelope ag ap hm dumped)"
  by (simp add: success_response_def success_envelope_def dict_get_getitem)

lemma success_response_Inr:
  "success_response event body = Inr r \<Longrightarrow>
   \<exists>ag ap hm dumped. json_dumps (PDict body) = Inr dumped \<and> r = success_envelope ag ap hm dumped"
  unfolding success_response_def success_envelope_def and_then_eq_Inr by blast

lemma handler_try_Inr:
  assumes "handler_try db event = Inr r"
  shows "\<exists>body ag ap hm dumped.
           json_dumps (PDict body) = Inr dumped \<and> r = success_envelope ag ap hm dumped"
proof -
  from assms obtain path where p: "(if path = JStr ''/salesorder/{SalesOrderID}''
            then and_then (extract_sales_id event)
              (\<lambda>sales_id. and_then (query_logistic_db db sales_id) (success_response event))
            else Inl (ValueError (''Invalid API path: '' @ py_str path))) = Inr r"
    unfolding handler_try_def and_then_eq_Inr by blast
  then have "and_then (extract_sales_id event)
              (\<lambda>sales_id. and_then (query_logistic_db db sales_id) (success_response event)) = Inr r"
    by (simp split: if_splits)
  then obtain body where "success_response event body = Inr r"
    unfolding and_then_eq_Inr by blast
  then show ?thesis
    by (blast dest: success_response_Inr)
qed


lemma str_contains_sublist: "str_contains hay needle \<longleftrightarrow> sublist needle hay"
  by (induction hay) (simp_all add: sublist_Cons_right)

lemma sublist_str_join: "x \<in> set ss \<Longrightarrow> sublist x (str_join sep ss)"
proof (induction sep ss rule: str_join.induct)
  case (1 sep)
  then show ?case by simp
next
  case (2 sep y)
  then show ?case by simp
next
  case (3 sep y z zs)
  show ?case
  proof (cases "x = y")
    case True
    then show ?thesis by simp
  next
    case False
    with 3 have "sublist x (str_join sep (z # zs))" by simp
    then obtain ps ts where "str_join sep (z # zs) = ps @ x @ ts"
      by (auto simp: sublist_def)
    then have "str_join sep (y # z # zs) = (y @ sep @ ps) @ x @ ts" by simp
    then show ?thesis unfolding sublist_def by blast
  qed
qed

lemma dumps_pairs_member:
  "dumps_pairs kvs = Inr ss \<Longrightarrow> map_of kvs k = Some v \<Longrightarrow>
   \<exists>s. json_dumps v = Inr s \<and> (json_str k @ '': '' @ s) \<in> set ss"
proof (induction kvs arbitrary: ss)
  case Nil
  then show ?case by simp
next
  case (Cons kv kvs)
  obtain k' v' where kv: "kv = (k', v')" by (cases kv)
  from Cons.prems(1) kv obtain s' ss' where
    s': "json_dumps v' = Inr s'" and ss': "dumps_pairs kvs = Inr ss'"
    and ss: "ss = (json_str k' @ '': '' @ s') # ss'"
    by (auto simp: and_then_eq_Inr)
  show ?case
  proof (cases "k' = k")
    case True
    with Cons.prems(2) kv have "v' = v" by simp
    with s' ss True show ?thesis by simp
  next
    case False
    with Cons.prems(2) kv have "map_of kvs k = Some v" by simp
    from Cons.IH [OF ss' this] ss show ?thesis by auto
  qed
qed

lemma dumped_dict_contains:
  assumes "json_dumps (PDict kvs) = Inr body" "map_of kvs k = Some v" "json_dumps v = Inr s"
  shows "str_contains body (json_str k @ '': '' @ s)"
proof -
  from assms(1) obtain ss where ss: "dumps_pairs kvs = Inr ss"
    and body: "body = ''{'' @ str_join '', '' ss @ ''}''"
    by (auto simp: and_then_eq_Inr)
  from dumps_pairs_member [OF ss assms(2)] assms(3)
  have "(json_str k @ '': '' @ s) \<in> set ss" by auto
  then have "sublist (json_str k @ '': '' @ s) (str_join '', '' ss)"
    by (rule sublist_str_join)
  then obtain ps ts where "str_join '', '' ss = ps @ (json_str k @ '': '' @ s) @ ts"
    by (auto simp: sublist_def)
  with body have "body = (''{'' @ ps) @ (json_str k @ '': '' @ s) @ (ts @ ''}'')" by simp
  then show ?thesis unfolding str_contains_sublist sublist_def by blast
qed

lemma json_escape_plain: "list_all json_plain s \<Longrightarrow> concat (map json_escape_char s) = s"
  by (induction s) (auto simp: json_plain_def json_escape_char_def)

lemma error_body_contains:
  assumes "list_all json_plain m"
  shows "str_contains (error_body (pre @ m)) m"
proof -
  have "concat (map json_escape_char (pre @ m)) = concat (map json_escape_char pre) @ m"
    using assms by (simp add: json_escape_plain)
  then have "error_body (pre @ m) =
      (''{'' @ json_str ''error'' @ '': '' @ [CHR 0x22] @ concat (map json_escape_char pre)) @ m @
      ([CHR 0x22] @ ''}'')"
    by (simp add: error_body_def json_str_def [of "pre @ m"])
  then show ?thesis unfolding str_contains_sublist sublist_def by blast
qed

lemma find_sales_id_dicts:
  "list_all is_dict ps \<Longrightarrow>
   find_sales_id ps =
     Inr (case find names_sales_order ps of
            None \<Rightarrow> JNull
          | Some p \<Rightarrow> (case dict_get p ''value'' of None \<Rightarrow> JNull | Some v \<Rightarrow> v))"
proof (induction ps)
  case Nil
  then show ?case by simp
next
  case (Cons p ps)
  then obtain kvs where p: "p = JDict kvs" by (cases p) simp_all
  show ?case
  proof (cases "map_of kvs ''name'' = Some (JStr ''SalesOrderID'')")
    case True
    with p show ?thesis by (simp add: names_sales_order_def)
  next
    case False
    with p Cons show ?thesis
      by (auto simp: names_sales_order_def split: option.splits)
  qed
qed

lemma extract_sales_id_list:
  assumes "dict_get event ''parameters'' = Some (JList ps)" "list_all is_dict ps"
  shows "extract_sales_id event =
     (case find names_sales_order ps of
        None \<Rightarrow> Inl (ValueError ''SalesOrderID parameter is missing or invalid'')
      | Some p \<Rightarrow>
          (case dict_get p ''value'' of
             None \<Rightarrow> Inl (ValueError ''SalesOrderID parameter is missing or invalid'')
           | Some v \<Rightarrow> if truthy v then Inr v
               else Inl (ValueError ''SalesOrderID parameter is missing or invalid'')))"
proof -
  from assms(1) obtain kvs where "event = JDict kvs" "map_of kvs ''parameters'' = Some (JList ps)"
    by (cases event) simp_all
  then show ?thesis
    by (simp add: extract_sales_id_def find_sales_id_dicts [OF assms(2)]
             split: option.splits)
qed

lemma extract_sales_id_absent:
  assumes "is_dict event" "dict_get event ''parameters'' = None"
  shows "extract_sales_id event = Inl (ValueError ''SalesOrderID parameter is missing or invalid'')"
proof -
  from assms obtain kvs where "event = JDict kvs" "map_of kvs ''parameters'' = None"
    by (cases event) simp_all
  then show ?thesis by (simp add: extract_sales_id_def)
qed

lemma extract_sales_id_valid:
  "valid_event event s \<Longrightarrow> extract_sales_id event = Inr (JStr s)"
  by (auto simp: valid_event_def extract_sales_id_list split: option.splits json.splits)

lemma lambda_handler_routed:
  assumes "has_required_fields event" "dict_get event ''apiPath'' = Some (JStr salesorder_path)"
  shows "lambda_handler db event =
     (case and_then (extract_sales_id event)
             (\<lambda>sales_id. and_then (query_logistic_db db sales_id) (success_response event)) of
        Inl e \<Rightarrow> handler_except e | Inr r \<Rightarrow> Inr r)"
  using assms
  by (simp add: lambda_handler_def handler_try_def validate_event_ok dict_get_getitem
        salesorder_path_def)

lemma query_logistic_db_str:
  assumes "s \<noteq> []" "table_status db ''logistics'' = None"
  shows "query_logistic_db db (JStr s) =
     (case table_query db ''logistics'' s of
        Inl e \<Rightarrow> Inl (query_except e)
      | Inr resp \<Rightarrow>
          if ''Items'' \<in> set (map fst resp) then Inr resp
          else Inl (LogisticsQueryError
                 ''Failed to query logistics data: Invalid response format from database''))"
  using assms
  by (simp add: query_logistic_db_def query_try_def setup_dynamodb_table_def split: sum.splits)

lemma lambda_handler_valid:
  assumes "valid_event event s" "table_status db ''logistics'' = None"
  shows "lambda_handler db event =
     (case and_then (query_logistic_db db (JStr s)) (success_response event) of
        Inl e \<Rightarrow> handler_except e | Inr r \<Rightarrow> Inr r)"
  using assms lambda_handler_routed [of event db] extract_sales_id_valid [of event s]
  by (simp add: valid_event_def)

lemma query_logistic_db_Inr:
  assumes "query_logistic_db db sales_id = Inr resp"
  shows "\<exists>s. sales_id = JStr s \<and> table_query db ''logistics'' s = Inr resp"
proof -
  from assms have t: "query_try db sales_id = Inr resp"
    by (simp add: query_logistic_db_def split: sum.splits)
  then have ok: "truthy sales_id" "is_str sales_id"
    by (auto simp: query_try_def split: if_splits)
  then obtain s where s: "sales_id = JStr s" by (cases sales_id) simp_all
  from t ok obtain orders_table where o: "setup_dynamodb_table db ''logistics'' = Inr orders_table"
    and q: "and_then (table_query db orders_table (py_str sales_id))
               (\<lambda>resp. if ''Items'' \<notin> set (map fst resp)
                  then Inl (LogisticsQueryError ''Invalid response format from database'')
                  else Inr resp) = Inr resp"
    by (auto simp: query_try_def and_then_eq_Inr)
  from o have "orders_table = ''logistics''"
    by (auto simp: setup_dynamodb_table_def split: option.splits exn.splits)
  with q s have "table_query db ''logistics'' s = Inr resp"
    by (auto simp: and_then_eq_Inr split: if_splits)
  with s show ?thesis by blast
qed

lemma handler_try_Inr_query:
  assumes "handler_try db event = Inr r"
  shows "\<exists>s resp ag ap hm dumped.
           table_query db ''logistics'' s = Inr resp \<and>
           json_dumps (PDict resp) = Inr dumped \<and> r = success_envelope ag ap hm dumped"
proof -
  from assms obtain path where "(if path = JStr ''/salesorder/{SalesOrderID}''
            then and_then (extract_sales_id event)
              (\<lambda>sales_id. and_then (query_logistic_db db sales_id) (success_response event))
            else Inl (ValueError (''Invalid API path: '' @ py_str path))) = Inr r"
    unfolding handler_try_def and_then_eq_Inr by blast
  then have "and_then (extract_sales_id event)
              (\<lambda>sales_id. and_then (query_logistic_db db sales_id) (success_response event)) = Inr r"
    by (simp split: if_splits)
  then obtain sales_id resp where q: "query_logistic_db db sales_id = Inr resp"
    and "success_response event resp = Inr r"
    unfolding and_then_eq_Inr by blast
  then show ?thesis
    by (blast dest: success_response_Inr query_logistic_db_Inr)
qed

lemma so123_event_valid: "valid_event so123_event ''SO123''"
  by (simp add: valid_event_def so123_event_def event_with_def parameter_def
        has_required_fields_def salesorder_path_def names_sales_order_def)

lemma failing_table_simps:
  "table_status failing_table name = None"
  "table_query failing_table name key =
     Inl (ClientError ''ResourceNotFoundException'' ''Requested resource not found'')"
  by (simp_all add: failing_table_def table_answering_def)

lemma error_body_not_found:
  \<open>error_body ''Database query error: Requested resource not found'' =
     ''{"error": "Database query error: Requested resource not found"}''\<close>
  by (simp add: error_body_def json_str_def json_escape_char_def)

lemma shipped_table_simps:
  "table_status shipped_table name = None"
  "table_query shipped_table name key =
     Inr [(''Items'', PList (if key = ''SO123'' then [shipped_record] else []))]"
  by (simp_all add: shipped_table_def)

lemma json_str_Items: \<open>json_str ''Items'' = ''"Items"''\<close>
  by (simp add: json_str_def json_escape_char_def)

lemma handler_success:
  assumes "valid_event event s" "table_status db ''logistics'' = None"
    and "table_query db ''logistics'' s = Inr resp" "''Items'' \<in> set (map fst resp)"
    and "json_dumps (PDict resp) = Inr body"
    and "dict_get event ''actionGroup'' = Some ag" "dict_get event ''httpMethod'' = Some hm"
  shows "lambda_handler db event = Inr (success_envelope ag (JStr salesorder_path) hm body)"
proof -
  from assms(1) have s: "s \<noteq> []" and ap: "dict_get event ''apiPath'' = Some (JStr salesorder_path)"
    by (auto simp: valid_event_def split: option.splits json.splits)
  have "query_logistic_db db (JStr s) = Inr resp"
    using s assms(2,3,4) by (simp add: query_logistic_db_str)
  moreover have "success_response event resp =
      Inr (success_envelope ag (JStr salesorder_path) hm body)"
    using assms(5,6,7) ap by (simp add: success_response_eq)
  ultimately show ?thesis
    using lambda_handler_valid [OF assms(1,2)] by simp
qed

lemma first_missing_required:
  "first_missing event = Some f \<Longrightarrow> f \<in> set required_fields"
  by (auto simp: first_missing_def required_fields_def split: if_splits)

lemma required_fields_plain: "f \<in> set required_fields \<Longrightarrow> list_all json_plain f"
  by (auto simp: required_fields_def json_plain_def)

lemma shipped_body:
  \<open>json_dumps (PDict [(''Items'', PList [shipped_record])]) =
     Inr ''{"Items": [{"order_id": "SO123", "status": "shipped"}]}''\<close>
  by (simp add: shipped_record_def json_str_def json_escape_char_def)

lemma empty_table_simps:
  "table_status empty_table name = None"
  "table_query empty_table name key =
     Inr [(''Items'', PList []), (''Count'', PInt 0), (''ScannedCount'', PInt 0)]"
  by (simp_all add: empty_table_def table_answering_def)

lemma empty_body:
  \<open>json_dumps (PDict [(''Items'', PList []), (''Count'', PInt 0), (''ScannedCount'', PInt 0)]) =
     Inr ''{"Items": [], "Count": 0, "ScannedCount": 0}''\<close>
  by (simp add: json_str_def json_escape_char_def str_of_int_def str_of_nat.simps digit_def)

lemma itemless_table_simps:
  "table_status itemless_table name = None"
  "table_query itemless_table name key = Inr [(''Count'', PInt 0)]"
  by (simp_all add: itemless_table_def table_answering_def)

section \<open>Properties of the handler\<close>

text \<open>
  C1. For every inbound event, of any shape, and every behaviour of the table,
  \<^verbatim>\<open>lambda_handler\<close> returns: no exception leaves it. What it returns is a well-formed
  envelope: \<^verbatim>\<open>messageVersion\<close> is \<^verbatim>\<open>"1.0"\<close>, the status code is 200, 400 or 500, and the
  response body has the single content type \<^verbatim>\<open>application/json\<close>, whose \<^verbatim>\<open>body\<close> is a
  JSON-serialized string: with status 200 it is the text \<^verbatim>\<open>json.dumps\<close> gives for the
  dict the table's query returned, and with status 400 or 500 it is the text
  \<^verbatim>\<open>json.dumps\<close> gives for \<^verbatim>\<open>{"error": message}\<close>, an object with that one member.
\<close>

theorem lambda_handler_always_responds:
  "\<exists>r body. lambda_handler db event = Inr r \<and> messageVersion r = ''1.0'' \<and>
     httpStatusCode (response r) \<in> {200, 400, 500} \<and>
     responseBody (response r) = [(''application/json'', [(''body'', body)])] \<and>
     ((httpStatusCode (response r) = 200 \<and>
         (\<exists>s resp. table_query db ''logistics'' s = Inr resp \<and>
            json_dumps (PDict resp) = Inr body)) \<or>
      (httpStatusCode (response r) \<in> {400, 500} \<and>
         (\<exists>message. json_dumps (PDict [(''error'', PStr message)]) = Inr body \<and>
            body = ''{'' @ json_str ''error'' @ '': '' @ json_str message @ ''}'')))"
proof (cases "handler_try db event")
  case (Inl e)
  obtain m c where mc: "handler_except e = Inr (error_envelope (error_body m) c)"
    and c: "c = 400 \<or> c = 500"
    using handler_except_cases by blast
  let ?r = "error_envelope (error_body m) c"
  have "lambda_handler db event = Inr ?r"
    using Inl mc by (simp add: lambda_handler_def)
  moreover have "messageVersion ?r = ''1.0''"
    by (simp add: error_envelope_def)
  moreover have "httpStatusCode (response ?r) \<in> {400, 500}"
    using c by (auto simp: error_envelope_def)
  moreover have "responseBody (response ?r) = [(''application/json'', [(''body'', error_body m)])]"
    by (simp add: error_envelope_def)
  moreover have "json_dumps (PDict [(''error'', PStr m)]) = Inr (error_body m)"
    by (rule json_dumps_error)
  moreover have "error_body m = ''{'' @ json_str ''error'' @ '': '' @ json_str m @ ''}''"
    by (simp add: error_body_def)
  ultimately show ?thesis by blast
next
  case (Inr r)
  then obtain s resp ag ap hm dumped where q: "table_query db ''logistics'' s = Inr resp"
    and d: "json_dumps (PDict resp) = Inr dumped"
    and r: "r = success_envelope ag ap hm dumped"
    using handler_try_Inr_query by blast
  have "lambda_handler db event = Inr r"
    using Inr by (simp add: lambda_handler_def)
  moreover have "messageVersion r = ''1.0''" "httpStatusCode (response r) = 200"
    "responseBody (response r) = [(''application/json'', [(''body'', dumped)])]"
    using r by (simp_all add: success_envelope_def)
  ultimately show ?thesis using q d by blast
qed

theorem lambda_handler_always_responds_witness:
  \<open>(\<exists>r body. lambda_handler failing_table JNull = Inr r \<and> messageVersion r = ''1.0'' \<and>
     httpStatusCode (response r) \<in> {200, 400, 500} \<and>
     responseBody (response r) = [(''application/json'', [(''body'', body)])] \<and>
     ((httpStatusCode (response r) = 200 \<and>
         (\<exists>s resp. table_query failing_table ''logistics'' s = Inr resp \<and>
            json_dumps (PDict resp) = Inr body)) \<or>
      (httpStatusCode (response r) \<in> {400, 500} \<and>
         (\<exists>message. json_dumps (PDict [(''error'', PStr message)]) = Inr body \<and>
            body = ''{'' @ json_str ''error'' @ '': '' @ json_str message @ ''}'')))) \<and>
   lambda_handler failing_table JNull =
     Inr (error_envelope ''{"error": "Internal server error"}'' 500)\<close>
proof (intro conjI)
  show "\<exists>r body. lambda_handler failing_table JNull = Inr r \<and> messageVersion r = ''1.0'' \<and>
     httpStatusCode (response r) \<in> {200, 400, 500} \<and>
     responseBody (response r) = [(''application/json'', [(''body'', body)])] \<and>
     ((httpStatusCode (response r) = 200 \<and>
         (\<exists>s resp. table_query failing_table ''logistics'' s = Inr resp \<and>
            json_dumps (PDict resp) = Inr body)) \<or>
      (httpStatusCode (response r) \<in> {400, 500} \<and>
         (\<exists>message. json_dumps (PDict [(''error'', PStr message)]) = Inr body \<and>
            body = ''{'' @ json_str ''error'' @ '': '' @ json_str message @ ''}'')))"
    by (rule lambda_handler_always_responds)
  have "lambda_handler failing_table JNull =
      Inr (error_envelope (error_body ''Internal server error'') 500)"
    by (simp add: lambda_handler_def handler_try_def validate_event_def required_fields_def
          create_error_response_eq)
  then show \<open>lambda_handler failing_table JNull =
     Inr (error_envelope ''{"error": "Internal server error"}'' 500)\<close>
    by (simp add: error_body_def json_str_def json_escape_char_def)
qed

text \<open>
  C2, as the code has it. For every valid event whose table query raises a
  \<^verbatim>\<open>ClientError\<close> with the message \<open>msg\<close>, \<^verbatim>\<open>lambda_handler\<close> returns status 500 and the
  body is the JSON text of \<^verbatim>\<open>{"error": "Database query error: " + msg}\<close>. The message of
  the storage layer is part of that body: it stands there as it is whenever it has only
  characters that JSON does not escape.
\<close>

theorem storage_failure_is_500_with_detail:
  assumes "valid_event event s" "table_status db ''logistics'' = None"
    and "table_query db ''logistics'' s = Inl (ClientError code msg)"
  shows "lambda_handler db event =
           Inr (error_envelope (error_body (''Database query error: '' @ msg)) 500) \<and>
         (list_all json_plain msg \<longrightarrow>
            str_contains (error_body (''Database query error: '' @ msg)) msg)"
proof -
  from assms(1) have "s \<noteq> []"
    by (auto simp: valid_event_def split: option.splits json.splits)
  then have "query_logistic_db db (JStr s) =
      Inl (LogisticsQueryError (''Database query error: '' @ msg))"
    using assms(2,3) by (simp add: query_logistic_db_str)
  then have "lambda_handler db event =
      Inr (error_envelope (error_body (''Database query error: '' @ msg)) 500)"
    using lambda_handler_valid [OF assms(1,2)] by (simp add: create_error_response_eq)
  then show ?thesis using error_body_contains by blast
qed

theorem storage_failure_is_500_with_detail_witness:
  "valid_event so123_event ''SO123'' \<and> table_status failing_table ''logistics'' = None \<and>
   table_query failing_table ''logistics'' ''SO123'' =
     Inl (ClientError ''ResourceNotFoundException'' ''Requested resource not found'') \<and>
   lambda_handler failing_table so123_event =
     Inr (error_envelope (error_body ''Database query error: Requested resource not found'') 500) \<and>
   list_all json_plain ''Requested resource not found'' \<and>
   str_contains (error_body ''Database query error: Requested resource not found'')
     ''Requested resource not found''"
proof -
  have p: "list_all json_plain ''Requested resource not found''"
    by (simp add: json_plain_def)
  from storage_failure_is_500_with_detail
    [OF so123_event_valid failing_table_simps(1) failing_table_simps(2)] p
  show ?thesis
    by (simp add: so123_event_valid failing_table_simps)
qed

text \<open>
  C2 as stated fails: with a table whose query raises
  \<^verbatim>\<open>ClientError("Requested resource not found")\<close>, the body returned for a valid event
  contains that text.
\<close>

theorem storage_error_text_reaches_caller:
  \<open>lambda_handler failing_table so123_event =
     Inr (error_envelope ''{"error": "Database query error: Requested resource not found"}'' 500) \<and>
   str_contains ''{"error": "Database query error: Requested resource not found"}''
     ''Requested resource not found''\<close>
proof -
  have "query_logistic_db failing_table (JStr ''SO123'') =
      Inl (LogisticsQueryError ''Database query error: Requested resource not found'')"
    by (simp add: query_logistic_db_str failing_table_simps)
  then have "lambda_handler failing_table so123_event =
      Inr (error_envelope (error_body ''Database query error: Requested resource not found'') 500)"
    using lambda_handler_valid [OF so123_event_valid failing_table_simps(1)]
    by (simp add: create_error_response_eq)
  moreover have "str_contains (error_body ''Database query error: Requested resource not found'')
      ''Requested resource not found''"
    using error_body_contains [of "''Requested resource not found''" "''Database query error: ''"]
    by (simp add: json_plain_def)
  ultimately show ?thesis
    unfolding error_body_not_found by simp
qed

text \<open>
  C3. The end-to-end example: for the event with \<^verbatim>\<open>apiPath\<close> \<^verbatim>\<open>/salesorder/{SalesOrderID}\<close>,
  \<^verbatim>\<open>actionGroup\<close> \<^verbatim>\<open>ag1\<close>, \<^verbatim>\<open>httpMethod\<close> \<^verbatim>\<open>GET\<close> and the one parameter
  \<^verbatim>\<open>SalesOrderID = SO123\<close>, and a table whose query for \<^verbatim>\<open>SO123\<close> returns the one record
  \<^verbatim>\<open>{order_id: SO123, status: shipped}\<close> under \<^verbatim>\<open>Items\<close>, the handler returns exactly the
  envelope of the specification: the three fields of the event echoed, status 200, and as
  body the JSON text of the query result, unmodified.
\<close>

theorem so123_end_to_end:
  assumes "table_status db ''logistics'' = None"
    and "table_query db ''logistics'' ''SO123'' =
      Inr [(''Items'', PList [PDict [(''order_id'', PStr ''SO123''), (''status'', PStr ''shipped'')]])]"
  shows \<open>lambda_handler db
      (JDict [(''apiPath'', JStr ''/salesorder/{SalesOrderID}''), (''actionGroup'', JStr ''ag1''),
              (''httpMethod'', JStr ''GET''),
              (''parameters'', JList [JDict [(''name'', JStr ''SalesOrderID''),
                                             (''value'', JStr ''SO123'')]])]) =
    Inr \<lparr>messageVersion = ''1.0'',
         response = \<lparr>actionGroup = JStr ''ag1'', apiPath = JStr ''/salesorder/{SalesOrderID}'',
           httpMethod = JStr ''GET'', httpStatusCode = 200,
           responseBody = [(''application/json'',
             [(''body'', ''{"Items": [{"order_id": "SO123", "status": "shipped"}]}'')])]\<rparr>\<rparr> \<and>
    json_dumps (PDict [(''Items'',
        PList [PDict [(''order_id'', PStr ''SO123''), (''status'', PStr ''shipped'')]])]) =
      Inr ''{"Items": [{"order_id": "SO123", "status": "shipped"}]}''\<close>
proof -
  have d: \<open>json_dumps (PDict [(''Items'',
        PList [PDict [(''order_id'', PStr ''SO123''), (''status'', PStr ''shipped'')]])]) =
      Inr ''{"Items": [{"order_id": "SO123", "status": "shipped"}]}''\<close>
    by (simp add: json_str_def json_escape_char_def)
  have e: "JDict [(''apiPath'', JStr ''/salesorder/{SalesOrderID}''), (''actionGroup'', JStr ''ag1''),
              (''httpMethod'', JStr ''GET''),
              (''parameters'', JList [JDict [(''name'', JStr ''SalesOrderID''),
                                             (''value'', JStr ''SO123'')]])] = so123_event"
    by (simp add: so123_event_def event_with_def parameter_def)
  have \<open>lambda_handler db so123_event =
      Inr (success_envelope (JStr ''ag1'') (JStr salesorder_path) (JStr ''GET'')
        ''{"Items": [{"order_id": "SO123", "status": "shipped"}]}'')\<close>
    by (rule handler_success [OF so123_event_valid assms(1) assms(2) _ d])
       (simp_all add: so123_event_def event_with_def)
  then show ?thesis
    unfolding e using d by (simp add: success_envelope_def salesorder_path_def)
qed

theorem so123_end_to_end_witness:
  \<open>table_status shipped_table ''logistics'' = None \<and>
   table_query shipped_table ''logistics'' ''SO123'' =
      Inr [(''Items'', PList [PDict [(''order_id'', PStr ''SO123''), (''status'', PStr ''shipped'')]])] \<and>
   lambda_handler shipped_table so123_event =
    Inr \<lparr>messageVersion = ''1.0'',
         response = \<lparr>actionGroup = JStr ''ag1'', apiPath = JStr ''/salesorder/{SalesOrderID}'',
           httpMethod = JStr ''GET'', httpStatusCode = 200,
           responseBody = [(''application/json'',
             [(''body'', ''{"Items": [{"order_id": "SO123", "status": "shipped"}]}'')])]\<rparr>\<rparr>\<close>
proof -
  have q: "table_query shipped_table ''logistics'' ''SO123'' =
      Inr [(''Items'', PList [PDict [(''order_id'', PStr ''SO123''), (''status'', PStr ''shipped'')]])]"
    by (simp add: shipped_table_simps shipped_record_def)
  from so123_end_to_end [OF shipped_table_simps(1) q] q
  show ?thesis
    by (simp add: shipped_table_simps so123_event_def event_with_def parameter_def)
qed

text \<open>
  C4. For every event (a mapping) from which at least one of \<^verbatim>\<open>apiPath\<close>, \<^verbatim>\<open>actionGroup\<close>,
  \<^verbatim>\<open>httpMethod\<close> is absent, the handler returns status 400 with the error
  \<^verbatim>\<open>Missing required field: f\<close>, where \<open>f\<close> is the first absent field in that order; the
  body names \<open>f\<close> and no other missing field.
\<close>

theorem missing_field_is_400:
  assumes "is_dict event" "\<not> has_required_fields event"
  shows "\<exists>f. first_missing event = Some f \<and>
           lambda_handler db event =
             Inr (error_envelope (error_body (''Missing required field: '' @ f)) 400) \<and>
           str_contains (error_body (''Missing required field: '' @ f)) f"
proof -
  from assms(2) have "first_missing event \<noteq> None"
    by (auto simp: has_required_fields_def first_missing_def)
  then obtain f where f: "first_missing event = Some f"
    by blast
  have "lambda_handler db event =
      Inr (error_envelope (error_body (''Missing required field: '' @ f)) 400)"
    using validate_event_missing [OF assms(1) f]
    by (simp add: lambda_handler_def handler_try_def create_error_response_eq)
  moreover have "str_contains (error_body (''Missing required field: '' @ f)) f"
    using f by (intro error_body_contains required_fields_plain first_missing_required)
  ultimately show ?thesis using f by blast
qed

theorem missing_field_is_400_witness:
  "is_dict only_method_event \<and> \<not> has_required_fields only_method_event \<and>
   first_missing only_method_event = Some ''apiPath'' \<and>
   lambda_handler shipped_table only_method_event =
     Inr (error_envelope (error_body ''Missing required field: apiPath'') 400)"
proof -
  have d: "is_dict only_method_event" and n: "\<not> has_required_fields only_method_event"
    and m: "first_missing only_method_event = Some ''apiPath''"
    by (simp_all add: only_method_event_def has_required_fields_def first_missing_def)
  from missing_field_is_400 [OF d n, of shipped_table] m d n
  show ?thesis by auto
qed

text \<open>
  C5. Routing is string equality. For every event with the three required fields, the
  handler goes on to the extraction of the parameter and the query exactly when
  \<^verbatim>\<open>apiPath\<close> is the string \<^verbatim>\<open>/salesorder/{SalesOrderID}\<close>; for any other value, a concrete
  path such as \<^verbatim>\<open>/salesorder/SO123\<close> included, it returns status 400 with the error
  \<^verbatim>\<open>Invalid API path: ...\<close> and does not consult the table.
\<close>

theorem routing_is_string_equality:
  assumes "has_required_fields event" "dict_get event ''apiPath'' = Some path"
  shows "lambda_handler db event =
     (if path = JStr ''/salesorder/{SalesOrderID}''
      then (case and_then (extract_sales_id event)
                   (\<lambda>sales_id. and_then (query_logistic_db db sales_id) (success_response event)) of
              Inl e \<Rightarrow> handler_except e | Inr r \<Rightarrow> Inr r)
      else Inr (error_envelope (error_body (''Invalid API path: '' @ py_str path)) 400))"
proof (cases "path = JStr ''/salesorder/{SalesOrderID}''")
  case True
  then show ?thesis
    using lambda_handler_routed [OF assms(1), of db] assms(2) by (simp add: salesorder_path_def)
next
  case False
  then show ?thesis
    using assms
    by (simp add: lambda_handler_def handler_try_def validate_event_ok dict_get_getitem
          create_error_response_eq)
qed

theorem routing_is_string_equality_witness:
  "has_required_fields concrete_path_event \<and>
   dict_get concrete_path_event ''apiPath'' = Some (JStr ''/salesorder/SO123'') \<and>
   lambda_handler shipped_table concrete_path_event =
     Inr (error_envelope (error_body ''Invalid API path: /salesorder/SO123'') 400)"
proof -
  have h: "has_required_fields concrete_path_event"
    and p: "dict_get concrete_path_event ''apiPath'' = Some (JStr ''/salesorder/SO123'')"
    by (simp_all add: concrete_path_event_def event_with_def has_required_fields_def)
  from routing_is_string_equality [OF h p, of shipped_table] h p
  show ?thesis by simp
qed

text \<open>
  C6. For every event with the required fields and the supported path whose parameters
  are a list of mappings: if no entry has the name \<^verbatim>\<open>SalesOrderID\<close> (compared exactly),
  or the first such entry has no value or an empty one, the handler returns status 400;
  otherwise the value of the first such entry is what \<^verbatim>\<open>query_logistic_db\<close> is called
  with, and later entries of the same name are not looked at.
\<close>

theorem first_sales_order_parameter_wins:
  assumes "has_required_fields event"
    and "dict_get event ''apiPath'' = Some (JStr ''/salesorder/{SalesOrderID}'')"
    and "dict_get event ''parameters'' = Some (JList ps)" "list_all is_dict ps"
  shows "lambda_handler db event =
     (case find names_sales_order ps of
        None \<Rightarrow>
          Inr (error_envelope (error_body ''SalesOrderID parameter is missing or invalid'') 400)
      | Some p \<Rightarrow>
          (case dict_get p ''value'' of
             None \<Rightarrow>
               Inr (error_envelope (error_body ''SalesOrderID parameter is missing or invalid'') 400)
           | Some v \<Rightarrow>
               if truthy v
               then (case and_then (query_logistic_db db v) (success_response event) of
                       Inl e \<Rightarrow> handler_except e | Inr r \<Rightarrow> Inr r)
               else Inr (error_envelope
                      (error_body ''SalesOrderID parameter is missing or invalid'') 400)))"
proof -
  have "lambda_handler db event =
     (case and_then (extract_sales_id event)
             (\<lambda>sales_id. and_then (query_logistic_db db sales_id) (success_response event)) of
        Inl e \<Rightarrow> handler_except e | Inr r \<Rightarrow> Inr r)"
    using assms(1,2) by (intro lambda_handler_routed) (simp_all add: salesorder_path_def)
  then show ?thesis
    by (simp add: extract_sales_id_list [OF assms(3,4)] create_error_response_eq
          split: option.splits)
qed

theorem first_sales_order_parameter_wins_witness:
  \<open>has_required_fields two_ids_event \<and>
   dict_get two_ids_event ''apiPath'' = Some (JStr ''/salesorder/{SalesOrderID}'') \<and>
   dict_get two_ids_event ''parameters'' =
     Some (JList [parameter ''salesorderid'' (JStr ''SO000''),
                  parameter ''SalesOrderID'' (JStr ''SO123''),
                  parameter ''SalesOrderID'' (JStr ''SO999'')]) \<and>
   list_all is_dict [parameter ''salesorderid'' (JStr ''SO000''),
                  parameter ''SalesOrderID'' (JStr ''SO123''),
                  parameter ''SalesOrderID'' (JStr ''SO999'')] \<and>
   lambda_handler shipped_table two_ids_event =
     (case and_then (query_logistic_db shipped_table (JStr ''SO123''))
             (success_response two_ids_event) of
        Inl e \<Rightarrow> handler_except e | Inr r \<Rightarrow> Inr r) \<and>
   lambda_handler shipped_table two_ids_event =
     Inr (success_envelope (JStr ''ag1'') (JStr ''/salesorder/{SalesOrderID}'') (JStr ''GET'')
            ''{"Items": [{"order_id": "SO123", "status": "shipped"}]}'')\<close>
proof -
  have h: "has_required_fields two_ids_event"
    and a: "dict_get two_ids_event ''apiPath'' = Some (JStr ''/salesorder/{SalesOrderID}'')"
    and p: "dict_get two_ids_event ''parameters'' =
     Some (JList [parameter ''salesorderid'' (JStr ''SO000''),
                  parameter ''SalesOrderID'' (JStr ''SO123''),
                  parameter ''SalesOrderID'' (JStr ''SO999'')])"
    and d: "list_all is_dict [parameter ''salesorderid'' (JStr ''SO000''),
                  parameter ''SalesOrderID'' (JStr ''SO123''),
                  parameter ''SalesOrderID'' (JStr ''SO999'')]"
    by (simp_all add: two_ids_event_def event_with_def has_required_fields_def parameter_def)
  have w: "lambda_handler shipped_table two_ids_event =
     (case and_then (query_logistic_db shipped_table (JStr ''SO123''))
             (success_response two_ids_event) of
        Inl e \<Rightarrow> handler_except e | Inr r \<Rightarrow> Inr r)"
    using first_sales_order_parameter_wins [OF h a p d, of shipped_table]
    by (simp add: parameter_def names_sales_order_def)
  have q: "query_logistic_db shipped_table (JStr ''SO123'') = Inr [(''Items'', PList [shipped_record])]"
    by (simp add: query_logistic_db_str shipped_table_simps)
  have \<open>success_response two_ids_event [(''Items'', PList [shipped_record])] =
      Inr (success_envelope (JStr ''ag1'') (JStr ''/salesorder/{SalesOrderID}'') (JStr ''GET'')
            ''{"Items": [{"order_id": "SO123", "status": "shipped"}]}'')\<close>
    by (rule success_response_eq [OF _ _ _ shipped_body])
       (simp_all add: two_ids_event_def event_with_def)
  with w q h a p d show ?thesis by simp
qed

text \<open>
  C7. For every valid event whose query succeeds with an empty \<^verbatim>\<open>Items\<close> collection (the
  rest of the result being serializable, with body \<open>body\<close> as its JSON text), the handler
  returns status 200 with that body, and the body shows the empty collection as
  \<^verbatim>\<open>"Items": []\<close>: an empty result is a success.
\<close>

theorem empty_result_is_success:
  assumes "valid_event event s" "table_status db ''logistics'' = None"
    and "table_query db ''logistics'' s = Inr resp" "map_of resp ''Items'' = Some (PList [])"
    and "json_dumps (PDict resp) = Inr body"
  shows \<open>\<exists>r. lambda_handler db event = Inr r \<and> httpStatusCode (response r) = 200 \<and>
           responseBody (response r) = [(''application/json'', [(''body'', body)])] \<and>
           str_contains body ''"Items": []''\<close>
proof -
  from assms(1) obtain ag hm where ag: "dict_get event ''actionGroup'' = Some ag"
    and hm: "dict_get event ''httpMethod'' = Some hm"
    by (auto simp: valid_event_def has_required_fields_def)
  from assms(4) have i: "''Items'' \<in> set (map fst resp)"
    by (metis map_of_eq_None_iff option.distinct(1) set_map)
  have "lambda_handler db event = Inr (success_envelope ag (JStr salesorder_path) hm body)"
    using assms(1,2,3) i assms(5) ag hm by (rule handler_success)
  moreover have \<open>str_contains body ''"Items": []''\<close>
    using dumped_dict_contains [OF assms(5) assms(4), of "''[]''"]
    by (simp add: json_str_Items)
  ultimately show ?thesis
    by (simp add: success_envelope_def)
qed

theorem empty_result_is_success_witness:
  \<open>valid_event so123_event ''SO123'' \<and> table_status empty_table ''logistics'' = None \<and>
   table_query empty_table ''logistics'' ''SO123'' =
     Inr [(''Items'', PList []), (''Count'', PInt 0), (''ScannedCount'', PInt 0)] \<and>
   (\<exists>r. lambda_handler empty_table so123_event = Inr r \<and> httpStatusCode (response r) = 200 \<and>
      responseBody (response r) =
        [(''application/json'', [(''body'', ''{"Items": [], "Count": 0, "ScannedCount": 0}'')])] \<and>
      str_contains ''{"Items": [], "Count": 0, "ScannedCount": 0}'' ''"Items": []'')\<close>
proof -
  have m: "map_of [(''Items'', PList []), (''Count'', PInt 0), (''ScannedCount'', PInt 0)] ''Items'' =
      Some (PList [])"
    by simp
  from empty_result_is_success
    [OF so123_event_valid empty_table_simps(1) empty_table_simps(2) m empty_body]
  show ?thesis
    using so123_event_valid by (simp add: empty_table_simps)
qed

text \<open>
  C8. For every response of the handler with status 400 or 500, the fields
  \<^verbatim>\<open>actionGroup\<close>, \<^verbatim>\<open>apiPath\<close> and \<^verbatim>\<open>httpMethod\<close> are the string \<^verbatim>\<open>unknown\<close>, whatever the
  event held, and the body is the JSON text of \<^verbatim>\<open>{"error": message}\<close> for some message.
\<close>

theorem error_outcomes_are_anonymous:
  assumes "lambda_handler db event = Inr r"
    and "httpStatusCode (response r) = 400 \<or> httpStatusCode (response r) = 500"
  shows "actionGroup (response r) = JStr ''unknown'' \<and> apiPath (response r) = JStr ''unknown'' \<and>
         httpMethod (response r) = JStr ''unknown'' \<and>
         (\<exists>message body. json_dumps (PDict [(''error'', PStr message)]) = Inr body \<and>
            responseBody (response r) = [(''application/json'', [(''body'', body)])])"
proof (cases "handler_try db event")
  case (Inl e)
  obtain m c where "handler_except e = Inr (error_envelope (error_body m) c)"
    using handler_except_cases by blast
  with Inl assms(1) have r: "r = error_envelope (error_body m) c"
    by (simp add: lambda_handler_def)
  have "responseBody (response r) = [(''application/json'', [(''body'', error_body m)])]"
    using r by (simp add: error_envelope_def)
  with json_dumps_error [of m]
  have "\<exists>message body. json_dumps (PDict [(''error'', PStr message)]) = Inr body \<and>
            responseBody (response r) = [(''application/json'', [(''body'', body)])]"
    by blast
  then show ?thesis
    using r by (simp add: error_envelope_def)
next
  case (Inr r')
  with assms(1) have "handler_try db event = Inr r"
    by (simp add: lambda_handler_def)
  then obtain ag ap hm dumped where "r = success_envelope ag ap hm dumped"
    using handler_try_Inr by blast
  then have "httpStatusCode (response r) = 200"
    by (simp add: success_envelope_def)
  with assms(2) show ?thesis by simp
qed

theorem error_outcomes_are_anonymous_witness:
  "lambda_handler shipped_table concrete_path_event =
     Inr (error_envelope (error_body ''Invalid API path: /salesorder/SO123'') 400) \<and>
   httpStatusCode (response (error_envelope (error_body ''Invalid API path: /salesorder/SO123'') 400)) = 400 \<and>
   actionGroup (response (error_envelope (error_body ''Invalid API path: /salesorder/SO123'') 400)) =
     JStr ''unknown'' \<and>
   apiPath (response (error_envelope (error_body ''Invalid API path: /salesorder/SO123'') 400)) =
     JStr ''unknown'' \<and>
   httpMethod (response (error_envelope (error_body ''Invalid API path: /salesorder/SO123'') 400)) =
     JStr ''unknown'' \<and>
   dict_get concrete_path_event ''apiPath'' = Some (JStr ''/salesorder/SO123'')"
proof -
  have h: "has_required_fields concrete_path_event"
    and p: "dict_get concrete_path_event ''apiPath'' = Some (JStr ''/salesorder/SO123'')"
    by (simp_all add: concrete_path_event_def event_with_def has_required_fields_def)
  have l: "lambda_handler shipped_table concrete_path_event =
     Inr (error_envelope (error_body ''Invalid API path: /salesorder/SO123'') 400)"
    using h p
    by (simp add: lambda_handler_def handler_try_def validate_event_ok dict_get_getitem
          create_error_response_eq)
  have s: "httpStatusCode (response (error_envelope (error_body ''Invalid API path: /salesorder/SO123'') 400)) = 400
     \<or> httpStatusCode (response (error_envelope (error_body ''Invalid API path: /salesorder/SO123'') 400)) = 500"
    by (simp add: error_envelope_def)
  from error_outcomes_are_anonymous [OF l s] l p
  show ?thesis by (simp add: error_envelope_def)
qed

text \<open>
  C9. For every event with the three required fields and the supported path but no
  \<^verbatim>\<open>parameters\<close> field, validation of the event passes, the parameters are taken to be
  the empty list, and the handler returns status 400 with the error
  \<^verbatim>\<open>SalesOrderID parameter is missing or invalid\<close>.
\<close>

theorem absent_parameters_is_400:
  assumes "has_required_fields event"
    and "dict_get event ''apiPath'' = Some (JStr ''/salesorder/{SalesOrderID}'')"
    and "dict_get event ''parameters'' = None"
  shows "validate_event event = Inr () \<and>
         py_get event ''parameters'' (JList []) = Inr (JList []) \<and>
         lambda_handler db event =
           Inr (error_envelope (error_body ''SalesOrderID parameter is missing or invalid'') 400)"
proof -
  have d: "is_dict event" using assms(1) by (rule has_required_is_dict)
  have "py_get event ''parameters'' (JList []) = Inr (JList [])"
    using d assms(3) by (cases event) simp_all
  moreover have "lambda_handler db event =
      Inr (error_envelope (error_body ''SalesOrderID parameter is missing or invalid'') 400)"
    using lambda_handler_routed [of event db] assms(1,2) extract_sales_id_absent [OF d assms(3)]
    by (simp add: salesorder_path_def create_error_response_eq)
  ultimately show ?thesis
    using validate_event_ok [OF assms(1)] by simp
qed

theorem absent_parameters_is_400_witness:
  \<open>has_required_fields no_parameters_event \<and>
   dict_get no_parameters_event ''apiPath'' = Some (JStr ''/salesorder/{SalesOrderID}'') \<and>
   dict_get no_parameters_event ''parameters'' = None \<and>
   lambda_handler shipped_table no_parameters_event =
     Inr (error_envelope ''{"error": "SalesOrderID parameter is missing or invalid"}'' 400)\<close>
proof -
  have h: "has_required_fields no_parameters_event"
    and a: "dict_get no_parameters_event ''apiPath'' = Some (JStr ''/salesorder/{SalesOrderID}'')"
    and p: "dict_get no_parameters_event ''parameters'' = None"
    by (simp_all add: no_parameters_event_def has_required_fields_def)
  from absent_parameters_is_400 [OF h a p, of shipped_table] h a p
  show ?thesis
    by (simp add: error_body_def json_str_def json_escape_char_def)
qed

text \<open>
  C10, evaluated. For the valid event for \<^verbatim>\<open>SO123\<close> and a table whose query returns a
  result without the key \<^verbatim>\<open>Items\<close>, the handler returns status 500, but the error text is
  \<^verbatim>\<open>Failed to query logistics data: Invalid response format from database\<close>: the
  \<^verbatim>\<open>LogisticsQueryError\<close> raised on line 52 is caught by the \<^verbatim>\<open>except Exception\<close> clause of
  the same function (line 68) and wrapped once more. The body is not the JSON text of
  \<^verbatim>\<open>{"error": "Invalid response format from database"}\<close>.
\<close>

theorem itemless_response_is_rewrapped:
  \<open>lambda_handler itemless_table so123_event =
     Inr (error_envelope
       ''{"error": "Failed to query logistics data: Invalid response format from database"}'' 500) \<and>
   lambda_handler itemless_table so123_event \<noteq>
     Inr (error_envelope ''{"error": "Invalid response format from database"}'' 500)\<close>
proof -
  have "query_logistic_db itemless_table (JStr ''SO123'') =
      Inl (LogisticsQueryError
        ''Failed to query logistics data: Invalid response format from database'')"
    by (simp add: query_logistic_db_str itemless_table_simps)
  then have "lambda_handler itemless_table so123_event =
      Inr (error_envelope
        (error_body ''Failed to query logistics data: Invalid response format from database'') 500)"
    using lambda_handler_valid [OF so123_event_valid itemless_table_simps(1)]
    by (simp add: create_error_response_eq)
  then show ?thesis
    by (simp add: error_body_def json_str_def json_escape_char_def error_envelope_def)
qed

end
